theory Spec2Isabelle
  imports Main "HOL-Library.Sublist"
begin

section \<open>Python string operations used by regex\_ai.py\<close>

text \<open>
  A Python \<open>str\<close> is modelled as a \<open>string\<close>, a list of 8-bit characters holding the
  UTF-8 code units of the text. White space is that of \<open>str.isspace\<close>, each
  character given by its code units. Case folding is that of ASCII: \<open>lower\<close> leaves
  a character outside ASCII alone. Identifiers cannot start with an underscore, so
  the private methods \<open>_build_prompt\<close>, \<open>_parse_response\<close>, \<open>_display_result\<close>,
  \<open>_test_pattern\<close> and \<open>_explain_pattern\<close> appear without it.
\<close>

definition lower_char :: "char \<Rightarrow> char" where
  "lower_char c =
     (let n = (of_char c :: nat) in if 65 \<le> n \<and> n \<le> 90 then char_of (n + 32) else c)"

definition lower :: "string \<Rightarrow> string" where
  \<comment> \<open>\<open>s.lower()\<close>\<close>
  "lower s = map lower_char s"

fun str_in :: "string \<Rightarrow> string \<Rightarrow> bool" where
  \<comment> \<open>\<open>sub in s\<close>: \<open>sub\<close> occurs in \<open>s\<close> as a contiguous run\<close>
  "str_in sub [] = (sub = [])"
| "str_in sub (c # cs) = (prefix sub (c # cs) \<or> str_in sub cs)"

definition startswith :: "string \<Rightarrow> string \<Rightarrow> bool" where
  \<comment> \<open>\<open>s.startswith(p)\<close>\<close>
  "startswith s p = prefix p s"

definition whitespace :: "string list" where
  \<comment> \<open>the characters for which \<open>str.isspace\<close> holds, in UTF-8: U+0009 to U+000D,
      U+001C to U+0020, U+0085, U+00A0, U+1680, U+2000 to U+200A, U+2028, U+2029,
      U+202F, U+205F and U+3000\<close>
  "whitespace =
     [[CHR 0x09], [CHR 0x0A], [CHR 0x0B], [CHR 0x0C], [CHR 0x0D],
      [CHR 0x1C], [CHR 0x1D], [CHR 0x1E], [CHR 0x1F], [CHR 0x20],
      [CHR 0xC2, CHR 0x85], [CHR 0xC2, CHR 0xA0], [CHR 0xE1, CHR 0x9A, CHR 0x80],
      [CHR 0xE2, CHR 0x80, CHR 0x80], [CHR 0xE2, CHR 0x80, CHR 0x81],
      [CHR 0xE2, CHR 0x80, CHR 0x82], [CHR 0xE2, CHR 0x80, CHR 0x83],
      [CHR 0xE2, CHR 0x80, CHR 0x84], [CHR 0xE2, CHR 0x80, CHR 0x85],
      [CHR 0xE2, CHR 0x80, CHR 0x86], [CHR 0xE2, CHR 0x80, CHR 0x87],
      [CHR 0xE2, CHR 0x80, CHR 0x88], [CHR 0xE2, CHR 0x80, CHR 0x89],
      [CHR 0xE2, CHR 0x80, CHR 0x8A], [CHR 0xE2, CHR 0x80, CHR 0xA8],
      [CHR 0xE2, CHR 0x80, CHR 0xA9], [CHR 0xE2, CHR 0x80, CHR 0xAF],
      [CHR 0xE2, CHR 0x81, CHR 0x9F], [CHR 0xE3, CHR 0x80, CHR 0x80]]"

function strip_left :: "string list \<Rightarrow> string \<Rightarrow> string" where
  \<comment> \<open>drops from the front of \<open>s\<close> every leading character listed in \<open>ws\<close>\<close>
  "strip_left ws s =
     (case find (\<lambda>w. w \<noteq> [] \<and> prefix w s) ws of
        None \<Rightarrow> s
      | Some w \<Rightarrow> strip_left ws (drop (length w) s))"
  by pat_completeness auto
termination
proof (relation "measure (\<lambda>(ws, s). length s)")
  show "wf (measure (\<lambda>(ws, s). length s))" by simp
next
  fix ws :: "string list" and s w :: string
  assume "find (\<lambda>w. w \<noteq> [] \<and> prefix w s) ws = Some w"
  then have "w \<noteq> []" and "prefix w s" by (auto simp: find_Some_iff)
  then have "s \<noteq> []" by auto
  with \<open>w \<noteq> []\<close> show "((ws, drop (length w) s), (ws, s)) \<in> measure (\<lambda>(ws, s). length s)"
    by simp
qed

definition strip :: "string \<Rightarrow> string" where
  \<comment> \<open>\<open>s.strip()\<close>: white space removed at both ends; at the end the code units of a
      character are met in reverse\<close>
  "strip s = rev (strip_left (map rev whitespace) (rev (strip_left whitespace s)))"

fun split :: "char \<Rightarrow> string \<Rightarrow> string list" where
  \<comment> \<open>\<open>s.split(sep)\<close> for a separator of one character: always at least one piece\<close>
  "split sep [] = [[]]"
| "split sep (c # cs) =
     (if c = sep then [] # split sep cs
      else (case split sep cs of
              [] \<Rightarrow> [[c]]
            | w # ws \<Rightarrow> (c # w) # ws))"

function replace :: "string \<Rightarrow> string \<Rightarrow> string \<Rightarrow> string" where
  \<comment> \<open>\<open>s.replace(old, new)\<close>: every occurrence of \<open>old\<close>, scanning from the left,
      occurrences not overlapping; an empty \<open>old\<close> matches before every character
      and at the end\<close>
  "replace old new [] = (if old = [] then new else [])"
| "replace old new (c # cs) =
     (if old = [] then new @ c # replace old new cs
      else if prefix old (c # cs) then new @ replace old new (drop (length old) (c # cs))
      else c # replace old new cs)"
  by pat_completeness auto
termination
  by (relation "measure (\<lambda>(old, new, s). length s)") auto

section \<open>The catalogue of common patterns\<close>

text \<open>
  Each value of the dictionary \<open>common_patterns\<close> is itself a dictionary with the three
  keys \<open>"pattern"\<close>, \<open>"explanation"\<close> and \<open>"examples"\<close>: a record. The outer dictionary
  is iterated with \<open>.items()\<close>, which follows insertion order, so it is an association
  list in the order of the literal.
\<close>

record pattern_info =
  pattern :: string
  explanation :: string
  examples :: "string list"

definition bs :: char where
  \<comment> \<open>the backslash\<close>
  "bs = CHR 0x5C"

definition email_info :: pattern_info where
  "email_info = \<lparr>
     pattern = ''^[a-zA-Z0-9._%+-]+@[a-zA-Z0-9.-]+'' @ [bs] @ ''.[a-zA-Z]{2,}$'',
     explanation = ''Matches standard email addresses with alphanumeric characters, dots, underscores, plus signs and hyphens'',
     examples = [''user@example.com'', ''test.email+tag@domain.co.uk'', ''simple@test.org'']\<rparr>"

definition phone_info :: pattern_info where
  "phone_info = \<lparr>
     pattern = ''^'' @ [bs] @ ''+?[1-9]'' @ [bs] @ ''d{1, 14}$'',
     explanation = ''Matches international phone numbers with optional plus sign and 2-15 digits'',
     examples = [''+1234567890'', ''1234567890'', ''+441234567890'']\<rparr>"

definition url_info :: pattern_info where
  "url_info = \<lparr>
     pattern = ''^https?://[^'' @ [bs] @ ''s]+$'',
     explanation = ''Matches HTTP and HTTPS URLs'',
     examples = [''https://example.com'', ''http://test.org/path'',
                 ''https://sub.domain.com/page?query=value'']\<rparr>"

definition ip_info :: pattern_info where
  "ip_info = \<lparr>
     pattern = ''^(?:[0-9]{1, 3}'' @ [bs] @ ''.){3}[0-9]{1, 3}$'',
     explanation = ''Matches IPv4 addresses (basic format validation)'',
     examples = [''192.168.1.1'', ''10.0.0.1'', ''172.16.254.1'']\<rparr>"

definition date_info :: pattern_info where
  "date_info = \<lparr>
     pattern = ''^(0[1-9]|1[0-2])/(0[1-9]|[12][0-9]|3[01])/'' @ [bs] @ ''d{4}$'',
     explanation = ''Matches dates in MM/DD/YYYY format'',
     examples = [''01/15/2024'', ''12/31/2023'', ''06/08/1990'']\<rparr>"

definition common_patterns :: "(string \<times> pattern_info) list" where
  "common_patterns =
     [(''email'', email_info), (''phone'', phone_info), (''url'', url_info),
      (''ip'', ip_info), (''date'', date_info)]"

definition variants :: "string \<Rightarrow> string list" where
  \<comment> \<open>the list of f-strings built for one key\<close>
  "variants key =
     [key @ '' address'', key @ '' addresses'', key @ '' number'', key @ '' numbers'']"

fun any_in :: "string list \<Rightarrow> string \<Rightarrow> bool" where
  \<comment> \<open>\<open>any(variant in desc_lower for variant in vs)\<close>\<close>
  "any_in [] desc_lower = False"
| "any_in (v # vs) desc_lower = (str_in v desc_lower \<or> any_in vs desc_lower)"

fun check_loop :: "(string \<times> 'a) list \<Rightarrow> string \<Rightarrow> 'a option" where
  \<comment> \<open>the \<open>for key, pattern_info in common_patterns.items()\<close> loop and the
      \<open>return None\<close> after it\<close>
  "check_loop [] desc_lower = None"
| "check_loop ((key, info) # rest) desc_lower =
     (if str_in key desc_lower \<or> any_in (variants key) desc_lower then Some info
      else check_loop rest desc_lower)"

definition check_common_patterns :: "string \<Rightarrow> pattern_info option" where
  "check_common_patterns description = check_loop common_patterns (lower description)"

subsection \<open>The lookup on an explicit store\<close>

text \<open>
  A Python dictionary is an object reached through a reference, and whoever holds the
  reference can assign to the object. The store is the list of the dictionary objects
  that exist, an address being a position in it. Evaluating the literal of
  \<open>common_patterns\<close> makes a new object for each of the five inner dictionaries, in the
  order written; the outer dictionary, local to the call, holds for each key the
  address of its object. The loop runs over these addresses and the method returns
  the address it found, together with the store as the call leaves it.
\<close>

type_synonym store = "pattern_info list"

definition new_dict :: "store \<Rightarrow> pattern_info \<Rightarrow> nat \<times> store" where
  \<comment> \<open>a dictionary display: a new object, at an address not in use\<close>
  "new_dict h v = (length h, h @ [v])"

fun dict_display :: "store \<Rightarrow> (string \<times> pattern_info) list \<Rightarrow> (string \<times> nat) list \<times> store" where
  \<comment> \<open>the outer display, its values evaluated from left to right\<close>
  "dict_display h [] = ([], h)"
| "dict_display h ((key, v) # items) =
     (let (a, h1) = new_dict h v;
          (refs, h2) = dict_display h1 items
      in ((key, a) # refs, h2))"

definition check_common_patterns_store :: "store \<Rightarrow> string \<Rightarrow> nat option \<times> store" where
  "check_common_patterns_store h description =
     (let (refs, h') = dict_display h common_patterns
      in (check_loop refs (lower description), h'))"

definition deref :: "store \<Rightarrow> nat option \<Rightarrow> pattern_info option" where
  \<comment> \<open>the object behind the value returned: \<open>None\<close> is no reference\<close>
  "deref h r = (case r of None \<Rightarrow> None | Some a \<Rightarrow> if a < length h then Some (h ! a) else None)"

section \<open>Console output\<close>

text \<open>
  Every \<open>print\<close> appends one entry, its argument, to the console; the entries keep the
  newline characters written inside an argument. The pictographs of the messages are
  given by their UTF-8 code units.
\<close>

definition nl :: char where
  "nl = CHR 0x0A"

definition dq :: char where
  \<comment> \<open>the double quote\<close>
  "dq = CHR 0x22"

definition sq :: char where
  \<comment> \<open>the single quote\<close>
  "sq = CHR 0x27"

definition cross_mark :: string where
  "cross_mark = [CHR 0xE2, CHR 0x9D, CHR 0x8C]"

definition bulb :: string where
  "bulb = [CHR 0xF0, CHR 0x9F, CHR 0x92, CHR 0xA1]"

definition magnifier :: string where
  "magnifier = [CHR 0xF0, CHR 0x9F, CHR 0x94, CHR 0x8D]"

definition robot :: string where
  "robot = [CHR 0xF0, CHR 0x9F, CHR 0xA4, CHR 0x96]"

definition dart :: string where
  "dart = [CHR 0xF0, CHR 0x9F, CHR 0x8E, CHR 0xAF]"

definition memo :: string where
  "memo = [CHR 0xF0, CHR 0x9F, CHR 0x93, CHR 0x9D]"

definition check_mark :: string where
  "check_mark = [CHR 0xE2, CHR 0x9C, CHR 0x85]"

definition test_tube :: string where
  "test_tube = [CHR 0xF0, CHR 0x9F, CHR 0xA7, CHR 0xAA]"

definition clipboard :: string where
  "clipboard = [CHR 0xF0, CHR 0x9F, CHR 0x93, CHR 0x8B]"

definition rocket :: string where
  "rocket = [CHR 0xF0, CHR 0x9F, CHR 0x9A, CHR 0x80]"

section \<open>The prompt\<close>

fun join_lines :: "string list \<Rightarrow> string" where
  \<comment> \<open>the lines of a triple-quoted literal, a newline between two lines\<close>
  "join_lines [] = []"
| "join_lines [l] = l"
| "join_lines (l # ls) = l @ nl # join_lines ls"

definition build_prompt :: "string \<Rightarrow> string" where
  "build_prompt description = join_lines [
     ''You are a regex expert. Generate a precise, production-ready regular expression for: ''
       @ [dq] @ description @ [dq],
     ''Requirements:'',
     ''- Must be accurate and handle common edge cases'',
     ''- Should be efficient (avoid catastrophic backtracking)'',
     ''- Use standard regex syntax that works across languages'',
     ''- Focus on practical, real-world usage'',
     [],
     ''Respond in this EXACT format:'',
     ''PATTERN: [the regex pattern only]'',
     ''EXPLANATION: [clear explanation of what it matches]'',
     ''EXAMPLES: [3-5 realistic examples separated by |]'',
     [],
     ''Common reference patterns:'',
     ''- Email: ^[a-zA-Z0-9._%+-]+@[a-zA-Z0-9.-]+'' @ [bs] @ ''.[a-zA-Z]{2,}$'',
     ''- Phone: ^'' @ [bs] @ ''+?[1-9]'' @ [bs] @ ''d{1,14}$'',
     ''- URL: ^https?:'' @ [bs] @ ''/'' @ [bs] @ ''/[^'' @ [bs] @ ''s]+$'',
     ''- IPv4: ^(?:[0-9]{1,3}'' @ [bs] @ ''.){3}[0-9]{1,3}$'',
     ''- Date (MM/DD/YYYY): ^(0[1-9]|1[0-2])'' @ [bs] @ ''/(0[1-9]|[12][0-9]|3[01])''
       @ [bs] @ ''/'' @ [bs] @ ''d{4}$'',
     [],
     ''Generate for: '' @ description]"

section \<open>Parsing the response\<close>

fun parse_loop :: "string list \<Rightarrow> string \<times> string \<times> string list
    \<Rightarrow> string \<times> string \<times> string list" where
  \<comment> \<open>the \<open>for line in lines\<close> loop over the three local variables\<close>
  "parse_loop [] (pat, expl, exs) = (pat, expl, exs)"
| "parse_loop (l # ls) (pat, expl, exs) =
     (let line = strip l in
      if startswith line ''PATTERN:'' then
        parse_loop ls (strip (replace ''PATTERN:'' [] line), expl, exs)
      else if startswith line ''EXPLANATION:'' then
        parse_loop ls (pat, strip (replace ''EXPLANATION:'' [] line), exs)
      else if startswith line ''EXAMPLES:'' then
        (let examples_text = strip (replace ''EXAMPLES:'' [] line) in
         parse_loop ls (pat, expl,
           map strip (filter (\<lambda>ex. strip ex \<noteq> []) (split (CHR ''|'') examples_text))))
      else parse_loop ls (pat, expl, exs))"

definition parse_response :: "string \<Rightarrow> string \<times> string \<times> string list" where
  "parse_response result = parse_loop (split nl result) ([], [], [])"

section \<open>Displaying, testing and explaining a pattern\<close>

definition display_result :: "string \<Rightarrow> string \<Rightarrow> string list \<Rightarrow> string list" where
  "display_result pat expl exs =
     [nl # dart @ '' Generated Regex:'', ''   '' @ pat]
     @ (if expl \<noteq> [] then [nl # memo @ '' Explanation:'', ''   '' @ expl] else [])
     @ (if exs \<noteq> []
        then (nl # check_mark @ '' Example matches:'') # map (\<lambda>example. ''   - '' @ example) exs
        else [])"

text \<open>
  The regular-expression engine, the formatting of a tuple and the chat completion
  service belong to the host, not to this program: they are parameters. An exception
  is its class name and its message; \<open>re.search\<close> returns a match object (its
  \<open>groups()\<close>, where an unmatched group is \<open>None\<close>, and its \<open>group()\<close>), returns
  \<open>None\<close>, raises \<open>re.error\<close> with a message, or raises something else. The chat
  completion stands for the request together with the reading of
  \<open>response.choices[0].message.content\<close>: the text, or the exception raised on the way.
\<close>

datatype exn = Exn string string

fun exn_str :: "exn \<Rightarrow> string" where
  \<comment> \<open>\<open>str(e)\<close>\<close>
  "exn_str (Exn cls msg) = msg"

datatype search_result =
    Match "string option list" string
  | NoMatch
  | ReError string
  | SearchRaises exn

record host =
  re_search :: "string \<Rightarrow> string \<Rightarrow> search_result"
  repr_tuple :: "string option list \<Rightarrow> string"
  chat_completion :: "string \<Rightarrow> exn + string"

definition test_pattern :: "host \<Rightarrow> string \<Rightarrow> string \<Rightarrow> string list \<times> exn option" where
  \<comment> \<open>the lines printed, and the exception that leaves the method, if any: only
      \<open>re.error\<close> is caught\<close>
  "test_pattern h pat test_string =
     (let header = nl # test_tube @ '' Testing: '' @ [sq] @ test_string @ [sq] in
      case re_search h pat test_string of
        Match groups text \<Rightarrow>
          ([header, ''   '' @ check_mark @ '' Match found!'']
           @ (if groups \<noteq> []
              then [''   '' @ clipboard @ '' Captured groups: '' @ repr_tuple h groups]
              else [])
           @ [''   '' @ dart @ '' Matched text: '' @ [sq] @ text @ [sq]], None)
      | NoMatch \<Rightarrow> ([header, ''   '' @ cross_mark @ '' No match found''], None)
      | ReError e \<Rightarrow> ([header, ''   '' @ cross_mark @ '' Invalid regex pattern: '' @ e], None)
      | SearchRaises e \<Rightarrow> ([header], Some e))"

definition components :: "string \<Rightarrow> string list" where
  \<comment> \<open>the list \<open>components\<close> after the nine \<open>if\<close> statements\<close>
  "components pat =
     (if str_in ''^'' pat then [''^ = Start of string''] else [])
     @ (if str_in ''$'' pat then [''$ = End of string''] else [])
     @ (if str_in ''+'' pat then [''+ = One or more of preceding element''] else [])
     @ (if str_in ''*'' pat then [''* = Zero or more of preceding element''] else [])
     @ (if str_in ''?'' pat then [''? = Zero or one of preceding element''] else [])
     @ (if str_in ''['' pat \<and> str_in '']'' pat
        then [''[] = Characters class (match any character inside)''] else [])
     @ (if str_in (bs # ''d'') pat then [bs # ''d = Any digit (0-9)''] else [])
     @ (if str_in (bs # ''w'') pat
        then [bs # ''w = Any word character (a-z, A-Z, 0-9, _)''] else [])
     @ (if str_in (bs # ''s'') pat then [bs # ''s = Any whitespace character''] else [])"

definition explain_pattern :: "string \<Rightarrow> string list" where
  "explain_pattern pat =
     [nl # magnifier @ '' Pattern Breakdown:'', ''   Pattern: '' @ pat]
     @ map (\<lambda>component. ''   - '' @ component) (components pat)"

section \<open>The generator object and \<open>generate\<close>\<close>

text \<open>
  An instance carries \<open>api_key\<close>, set by \<open>__init__\<close>. The method \<open>generate\<close> reads two
  attributes of \<open>self\<close> under the names \<open>_check_common_patterns\<close> and \<open>_buil_prompt\<close>.
  Reading an attribute finds it on the object or raises \<open>AttributeError\<close>, so the object
  records what the two names are bound to. The class body defines
  \<open>check_common_patterns\<close> and \<open>_build_prompt\<close> and neither of the two names read, so
  on the object that \<open>RegexAI()\<close> constructs both are absent.
\<close>

record self =
  api_key :: string
  attr__check_common_patterns :: "(string \<Rightarrow> pattern_info option) option"
  attr__buil_prompt :: "(string \<Rightarrow> string) option"

datatype outcome = Returned | Raised exn | Exited nat

definition attribute_error :: "string \<Rightarrow> exn" where
  "attribute_error name =
     Exn ''AttributeError''
       ([sq] @ ''RegexAI'' @ [sq] @ '' object has no attribute '' @ [sq] @ name @ [sq])"

definition RegexAI_init :: "string option \<Rightarrow> string list \<times> (nat + self)" where
  \<comment> \<open>\<open>__init__\<close>, from the value of \<open>os.getenv("OPENAI_API_KEY")\<close>: the lines printed,
      and the new object or the status of \<open>sys.exit\<close>\<close>
  "RegexAI_init env_key =
     (let missing =
        ([cross_mark @ '' Error: OPENAI_API_KEY not found in environment'',
          bulb @ '' Create a .env file with: OPENAI_API_KEY=your_key_here''], Inl 1)
      in case env_key of
           None \<Rightarrow> missing
         | Some k \<Rightarrow>
             if k = [] then missing
             else ([], Inr \<lparr>api_key = k, attr__check_common_patterns = None,
                            attr__buil_prompt = None\<rparr>))"

definition test_if_given :: "host \<Rightarrow> string \<Rightarrow> string option \<Rightarrow> string list \<times> exn option" where
  \<comment> \<open>\<open>if test_string: self._test_pattern(pattern, test_string)\<close>: \<open>None\<close> and the
      empty string are false\<close>
  "test_if_given h pat test_string =
     (case test_string of
        None \<Rightarrow> ([], None)
      | Some t \<Rightarrow> if t = [] then ([], None) else test_pattern h pat t)"

definition generate_try :: "host \<Rightarrow> string \<Rightarrow> string option \<Rightarrow> bool \<Rightarrow> string list" where
  \<comment> \<open>the \<open>try\<close> statement of \<open>generate\<close> with its handler, which catches every
      \<open>Exception\<close>: the lines printed\<close>
  "generate_try h prompt test_string explain =
     (let error_line = (\<lambda>e. cross_mark @ '' Error generating regex: '' @ exn_str e) in
      case chat_completion h prompt of
        Inl e \<Rightarrow> [error_line e]
      | Inr content \<Rightarrow>
          (let result = strip content;
               (pat, expl, exs) = parse_response result
           in if pat \<noteq> [] then
                (let (tested, raised) = test_if_given h pat test_string
                 in display_result pat expl exs @ tested
                    @ (case raised of
                         Some e \<Rightarrow> [error_line e]
                       | None \<Rightarrow> if explain then explain_pattern pat else []))
              else [cross_mark @ '' Failed to generate valid regex pattern'']))"

definition generate_prompted ::
    "host \<Rightarrow> self \<Rightarrow> string \<Rightarrow> string option \<Rightarrow> bool \<Rightarrow> bool \<Rightarrow> string list \<times> outcome" where
  \<comment> \<open>\<open>generate\<close> from the statement \<open>prompt = self._buil_prompt(description)\<close> on\<close>
  "generate_prompted h s description test_string dry_run explain =
     (case attr__buil_prompt s of
        None \<Rightarrow> ([], Raised (attribute_error ''_buil_prompt''))
      | Some build \<Rightarrow>
          (let prompt = build description
           in if dry_run then
                ([magnifier @ '' Prompt that would be sent to AI:'' @ [nl],
                  replicate 50 (CHR ''=''), prompt, replicate 50 (CHR ''='')], Returned)
              else
                ((robot @ '' Generating regex for: '' @ description)
                   # generate_try h prompt test_string explain, Returned)))"

definition generate ::
    "host \<Rightarrow> self \<Rightarrow> string \<Rightarrow> string option \<Rightarrow> bool \<Rightarrow> bool \<Rightarrow> string list \<times> outcome" where
  \<comment> \<open>the lines printed and how the call ends\<close>
  "generate h s description test_string dry_run explain =
     (case attr__check_common_patterns s of
        None \<Rightarrow> ([], Raised (attribute_error ''_check_common_patterns''))
      | Some check \<Rightarrow>
          (case check description of
             None \<Rightarrow> generate_prompted h s description test_string dry_run explain
           | Some common_pattern \<Rightarrow>
               if \<not> dry_run then
                 (let (tested, raised) = test_if_given h (pattern common_pattern) test_string
                  in (display_result (pattern common_pattern) (explanation common_pattern)
                        (examples common_pattern)
                      @ [bulb @ '' Found in common patterns database!''] @ tested,
                      case raised of None \<Rightarrow> Returned | Some e \<Rightarrow> Raised e))
               else generate_prompted h s description test_string dry_run explain))"

definition main ::
    "host \<Rightarrow> string option \<Rightarrow> string \<Rightarrow> string option \<Rightarrow> bool \<Rightarrow> bool \<Rightarrow> string list \<times> outcome" where
  \<comment> \<open>\<open>main\<close> after \<open>parse_args\<close>, from the environment's key and the parsed arguments\<close>
  "main h env_key description test dry_run explain =
     (let banner = [rocket @ '' RegexAI - English to Regex Generator'', replicate 40 (CHR ''='')]
      in case RegexAI_init env_key of
           (printed, Inl status) \<Rightarrow> (banner @ printed, Exited status)
         | (printed, Inr regexai) \<Rightarrow>
             (let (out, ending) = generate h regexai description test dry_run explain
              in (banner @ printed @ out, ending)))"

section \<open>The specification's wording of the operations\<close>

definition key_matches :: "string \<Rightarrow> string \<Rightarrow> bool" where
  \<comment> \<open>the key itself or one of the four phrases occurs in the lower-cased description\<close>
  "key_matches key desc_lower =
     (str_in key desc_lower \<or> str_in (key @ '' address'') desc_lower
      \<or> str_in (key @ '' addresses'') desc_lower \<or> str_in (key @ '' number'') desc_lower
      \<or> str_in (key @ '' numbers'') desc_lower)"

definition lookup_first_match :: "string \<Rightarrow> pattern_info option" where
  \<comment> \<open>the record of the first key of the table, in its order, that matches\<close>
  "lookup_first_match description =
     (case find (\<lambda>key. key_matches key (lower description))
             [''email'', ''phone'', ''url'', ''ip'', ''date''] of
        None \<Rightarrow> None
      | Some key \<Rightarrow> map_of common_patterns key)"

definition lookup_keys_only :: "string \<Rightarrow> pattern_info option" where
  \<comment> \<open>the simpler lookup that tests the keys alone\<close>
  "lookup_keys_only description =
     (case find (\<lambda>key. str_in key (lower description))
             [''email'', ''phone'', ''url'', ''ip'', ''date''] of
        None \<Rightarrow> None
      | Some key \<Rightarrow> map_of common_patterns key)"

definition checklist :: "(string list \<times> string) list" where
  \<comment> \<open>the ordered checklist: the literals that must all occur, and the line they give\<close>
  "checklist =
     [([''^''], ''^ = Start of string''),
      ([''$''], ''$ = End of string''),
      ([''+''], ''+ = One or more of preceding element''),
      ([''*''], ''* = Zero or more of preceding element''),
      ([''?''], ''? = Zero or one of preceding element''),
      ([''['', '']''], ''[] = Characters class (match any character inside)''),
      ([bs # ''d''], bs # ''d = Any digit (0-9)''),
      ([bs # ''w''], bs # ''w = Any word character (a-z, A-Z, 0-9, _)''),
      ([bs # ''s''], bs # ''s = Any whitespace character'')]"

definition explain_by_checklist :: "string \<Rightarrow> string list" where
  "explain_by_checklist pat =
     map snd (filter (\<lambda>(literals, line). list_all (\<lambda>l. str_in l pat) literals) checklist)"

fun parse_loop_remainder :: "string list \<Rightarrow> string \<times> string \<times> string list
    \<Rightarrow> string \<times> string \<times> string list" where
  \<comment> \<open>the parser as specified: what follows the prefix on the line, trimmed\<close>
  "parse_loop_remainder [] (pat, expl, exs) = (pat, expl, exs)"
| "parse_loop_remainder (l # ls) (pat, expl, exs) =
     (let line = strip l in
      if startswith line ''PATTERN:'' then
        parse_loop_remainder ls (strip (drop (length ''PATTERN:'') line), expl, exs)
      else if startswith line ''EXPLANATION:'' then
        parse_loop_remainder ls (pat, strip (drop (length ''EXPLANATION:'') line), exs)
      else if startswith line ''EXAMPLES:'' then
        (let examples_text = strip (drop (length ''EXAMPLES:'') line) in
         parse_loop_remainder ls (pat, expl,
           map strip (filter (\<lambda>ex. strip ex \<noteq> []) (split (CHR ''|'') examples_text))))
      else parse_loop_remainder ls (pat, expl, exs))"

definition parse_remainder :: "string \<Rightarrow> string \<times> string \<times> string list" where
  "parse_remainder raw = parse_loop_remainder (split nl raw) ([], [], [])"

definition prefix_once :: "string \<Rightarrow> string \<Rightarrow> bool" where
  \<comment> \<open>the stripped line does not start with \<open>p\<close>, or \<open>p\<close> does not occur again after it\<close>
  "prefix_once p l = (\<not> startswith (strip l) p \<or> \<not> str_in p (drop (length p) (strip l)))"

definition sample_host :: host where
  \<comment> \<open>a host for concrete runs: the engine answers as CPython's does on the patterns
      listed, and the service returns a text without any of the three prefixes\<close>
  "sample_host = \<lparr>
     re_search = (\<lambda>pat s.
        if pat = ''('' \<or> pat = ''(a''
        then ReError ''missing ), unterminated subpattern at position 0''
        else if pat = ''a{4294967296}''
        then SearchRaises (Exn ''OverflowError'' ''the repetition number is too large'')
        else if pat = ''^[a-z]+$'' \<and> s = ''abc'' then Match [] ''abc''
        else if pat = ''(a)(b)?'' \<and> s = ''xa'' then Match [Some ''a'', None] ''a''
        else NoMatch),
     repr_tuple = (\<lambda>groups.
        if groups = [Some ''a'', None] then ''('' @ [sq] @ ''a'' @ [sq] @ '', None)'' else ''()''),
     chat_completion = (\<lambda>prompt. Inr ''Sorry, no idea.'')\<rparr>"

section \<open>Substrings\<close>

lemma str_in_iff: "str_in sub s \<longleftrightarrow> (\<exists>p q. s = p @ sub @ q)"
proof (induction s)
  case Nil
  then show ?case by auto
next
  case (Cons c cs)
  show ?case
  proof
    assume "str_in sub (c # cs)"
    then consider "prefix sub (c # cs)" | "str_in sub cs" by auto
    then show "\<exists>p q. c # cs = p @ sub @ q"
    proof cases
      case 1
      then obtain q where "c # cs = sub @ q" by (auto simp: prefix_def)
      then have "c # cs = [] @ sub @ q" by simp
      then show ?thesis by blast
    next
      case 2
      with Cons.IH obtain p q where "cs = p @ sub @ q" by blast
      then have "c # cs = (c # p) @ sub @ q" by simp
      then show ?thesis by blast
    qed
  next
    assume "\<exists>p q. c # cs = p @ sub @ q"
    then obtain p q where pq: "c # cs = p @ sub @ q" by blast
    show "str_in sub (c # cs)"
    proof (cases p)
      case Nil
      with pq have "prefix sub (c # cs)" by (simp add: prefix_def)
      then show ?thesis by simp
    next
      case (Cons a p')
      with pq have "cs = p' @ sub @ q" by simp
      with Cons.IH have "str_in sub cs" by blast
      then show ?thesis by simp
    qed
  qed
qed

lemma str_in_append: "str_in (k @ v) s \<Longrightarrow> str_in k s"
proof -
  assume "str_in (k @ v) s"
  then obtain p q where "s = p @ (k @ v) @ q" unfolding str_in_iff by blast
  then have "s = p @ k @ (v @ q)" by simp
  then show ?thesis unfolding str_in_iff by blast
qed

lemma str_in_map: "str_in sub s \<Longrightarrow> str_in (map f sub) (map f s)"
  unfolding str_in_iff by (metis map_append)

lemma str_in_lower: "lower sub = sub \<Longrightarrow> str_in sub s \<Longrightarrow> str_in sub (lower s)"
  unfolding lower_def using str_in_map by metis

section \<open>The catalogue lookup\<close>

lemma any_in_variants:
  "any_in (variants key) s \<longleftrightarrow>
     str_in (key @ '' address'') s \<or> str_in (key @ '' addresses'') s
     \<or> str_in (key @ '' number'') s \<or> str_in (key @ '' numbers'') s"
  by (simp add: variants_def)

lemma loop_guard: "(str_in key s \<or> any_in (variants key) s) = key_matches key s"
  by (simp add: any_in_variants key_matches_def)

lemma key_matches_iff: "key_matches key s \<longleftrightarrow> str_in key s"
  unfolding key_matches_def using str_in_append by blast

lemma key_matches_eq: "key_matches key = str_in key"
  by (rule ext) (simp add: key_matches_iff)

lemma map_of_catalog:
  "map_of common_patterns ''email'' = Some email_info"
  "map_of common_patterns ''phone'' = Some phone_info"
  "map_of common_patterns ''url'' = Some url_info"
  "map_of common_patterns ''ip'' = Some ip_info"
  "map_of common_patterns ''date'' = Some date_info"
  by (simp_all add: common_patterns_def)

lemma catalog_keys:
  "map fst common_patterns = [''email'', ''phone'', ''url'', ''ip'', ''date'']"
  by (simp add: common_patterns_def)

text \<open>
  The loop with its early return is a search for the first matching key, whatever the
  table, as long as no key is listed twice.
\<close>

lemma check_loop_find:
  "distinct (map fst items) \<Longrightarrow>
   check_loop items s =
     (case find (\<lambda>key. key_matches key s) (map fst items) of
        None \<Rightarrow> None
      | Some key \<Rightarrow> map_of items key)"
proof (induction items)
  case Nil
  then show ?case by simp
next
  case (Cons item items)
  obtain key info where item: "item = (key, info)" by (cases item)
  show ?case
  proof (cases "key_matches key s")
    case True
    then show ?thesis using item by (simp add: loop_guard)
  next
    case False
    from Cons.prems have d: "distinct (map fst items)" and notin: "key \<notin> fst ` set items"
      using item by auto
    have "find (\<lambda>k. key_matches k s) (map fst items) = Some k' \<Longrightarrow> k' \<noteq> key" for k'
      using notin by (auto simp: find_Some_iff)
    then show ?thesis using False item Cons.IH[OF d]
      by (auto simp: loop_guard split: option.splits)
  qed
qed

lemma check_common_patterns_find:
  "check_common_patterns description =
     (case find (\<lambda>key. key_matches key (lower description))
             [''email'', ''phone'', ''url'', ''ip'', ''date''] of
        None \<Rightarrow> None
      | Some key \<Rightarrow> map_of common_patterns key)"
proof -
  have "distinct (map fst common_patterns)" by (simp add: catalog_keys)
  from check_loop_find[OF this] show ?thesis
    by (simp only: check_common_patterns_def catalog_keys)
qed

text \<open>
  C1. For every description, \<open>check_common_patterns\<close> lower-cases it, goes through the
  keys in the order email, phone, url, ip, date, and returns the record of the first
  key that occurs in the lower-cased description, alone or followed by
  \<open>" address"\<close>, \<open>" addresses"\<close>, \<open>" number"\<close> or \<open>" numbers"\<close>; it returns \<open>None\<close> when
  no key does. Nothing but the order of the table decides between two matching keys.
\<close>

theorem check_common_patterns_first_match:
  "map fst common_patterns = [''email'', ''phone'', ''url'', ''ip'', ''date'']
   \<and> check_common_patterns description = lookup_first_match description"
  by (simp only: catalog_keys check_common_patterns_find lookup_first_match_def simp_thms)

theorem check_common_patterns_first_match_witness:
  "check_common_patterns ''Dates or URLs'' = lookup_first_match ''Dates or URLs''
   \<and> lookup_first_match ''Dates or URLs'' = Some url_info
   \<and> lookup_first_match ''hex colours'' = None"
  using check_common_patterns_first_match[of "''Dates or URLs''"] by code_simp

text \<open>
  The key \<open>phone\<close> is found in every description that contains \<open>phone number\<close>, in
  any case of the rest of the text.
\<close>

lemma lower_phone_number: "lower ''phone number'' = ''phone number''"
  by code_simp

lemma str_in_phone:
  "str_in ''phone number'' s \<or> str_in ''phone numbers'' s \<Longrightarrow> str_in ''phone'' (lower s)"
proof -
  assume "str_in ''phone number'' s \<or> str_in ''phone numbers'' s"
  then have "str_in ''phone number'' s"
    using str_in_append[of "''phone number''" "''s''" s] by auto
  then have "str_in ''phone number'' (lower s)"
    by (rule str_in_lower[OF lower_phone_number])
  then show ?thesis using str_in_append[of "''phone''" "'' number''" "lower s"] by simp
qed

text \<open>
  C5, as the code has it. A description that contains \<open>phone number\<close> or
  \<open>phone numbers\<close>, and whose lower-cased text does not contain \<open>email\<close>, gets the
  phone record: the key \<open>email\<close> comes first in the table and wins when both occur.
  The description \<open>telephone\<close> contains the key \<open>phone\<close> and gets the phone record too.
\<close>

theorem phone_number_lookup:
  "((str_in ''phone number'' description \<or> str_in ''phone numbers'' description)
      \<and> \<not> str_in ''email'' (lower description)
      \<longrightarrow> check_common_patterns description = Some phone_info)
   \<and> check_common_patterns ''telephone'' = Some phone_info"
proof
  show "check_common_patterns ''telephone'' = Some phone_info" by code_simp
  show "(str_in ''phone number'' description \<or> str_in ''phone numbers'' description)
     \<and> \<not> str_in ''email'' (lower description)
     \<longrightarrow> check_common_patterns description = Some phone_info"
    using str_in_phone[of description]
    by (auto simp: check_common_patterns_find key_matches_eq map_of_catalog)
qed

theorem phone_number_lookup_witness:
  "(str_in ''phone number'' ''my phone numbers'' \<or> str_in ''phone numbers'' ''my phone numbers'')
   \<and> \<not> str_in ''email'' (lower ''my phone numbers'')
   \<and> check_common_patterns ''my phone numbers'' = Some phone_info"
  using phone_number_lookup[of "''my phone numbers''"] by code_simp

text \<open>
  C5 as written fails twice: a description with \<open>phone numbers\<close> in it gets the email
  record when it also names email, and \<open>telephone\<close> does not get \<open>None\<close>.
\<close>

theorem phone_number_lookup_counterexample:
  "str_in ''phone numbers'' ''email or phone numbers''
   \<and> check_common_patterns ''email or phone numbers'' = Some email_info
   \<and> email_info \<noteq> phone_info
   \<and> check_common_patterns ''telephone'' \<noteq> None"
  by code_simp

text \<open>
  C10. The four phrases built from a key add nothing: each contains the key, so the
  lookup finds a record exactly when one of the five keys occurs in the lower-cased
  description, and it is the same function as the lookup that tests the keys alone.
\<close>

theorem variants_redundant:
  "(check_common_patterns description \<noteq> None \<longleftrightarrow>
      (str_in ''email'' (lower description) \<or> str_in ''phone'' (lower description)
       \<or> str_in ''url'' (lower description) \<or> str_in ''ip'' (lower description)
       \<or> str_in ''date'' (lower description)))
   \<and> check_common_patterns description = lookup_keys_only description"
proof
  show "check_common_patterns description = lookup_keys_only description"
    by (simp only: check_common_patterns_find lookup_keys_only_def key_matches_eq)
  show "check_common_patterns description \<noteq> None \<longleftrightarrow>
     (str_in ''email'' (lower description) \<or> str_in ''phone'' (lower description)
      \<or> str_in ''url'' (lower description) \<or> str_in ''ip'' (lower description)
      \<or> str_in ''date'' (lower description))"
    unfolding check_common_patterns_find key_matches_eq
    by (simp add: map_of_catalog)
qed

theorem variants_redundant_witness:
  "check_common_patterns ''an IP address'' \<noteq> None
   \<and> str_in ''ip'' (lower ''an IP address'')
   \<and> check_common_patterns ''an IP address'' = lookup_keys_only ''an IP address''"
  using variants_redundant[of "''an IP address''"] by code_simp

text \<open>
  On the explicit store, the display of the table adds its five objects after those
  that exist, and the loop over the addresses finds what the loop over the records
  finds.
\<close>

lemma dict_display_loop:
  "dict_display h items = (refs, h') \<Longrightarrow>
   h' = h @ map snd items
   \<and> (case check_loop refs s of
        None \<Rightarrow> check_loop items s = None
      | Some a \<Rightarrow> length h \<le> a \<and> a < length h' \<and> check_loop items s = Some (h' ! a))"
proof (induction items arbitrary: h refs h')
  case Nil
  then show ?case by simp
next
  case (Cons item items)
  obtain key v where item: "item = (key, v)" by (cases item)
  obtain refs1 h2 where rest: "dict_display (h @ [v]) items = (refs1, h2)"
    by (cases "dict_display (h @ [v]) items")
  from Cons.prems item rest have refs: "refs = (key, length h) # refs1" and h': "h' = h2"
    by (simp_all add: new_dict_def)
  from Cons.IH[OF rest]
  have h2: "h2 = (h @ [v]) @ map snd items"
    and loop: "case check_loop refs1 s of
        None \<Rightarrow> check_loop items s = None
      | Some a \<Rightarrow> length (h @ [v]) \<le> a \<and> a < length h2 \<and> check_loop items s = Some (h2 ! a)"
    by simp_all
  show ?case
  proof (cases "str_in key s \<or> any_in (variants key) s")
    case True
    then show ?thesis using item refs h' h2 by (simp add: nth_append)
  next
    case False
    then show ?thesis using item refs h' h2 loop
      by (auto split: option.splits)
  qed
qed

lemma check_common_patterns_store_sound:
  assumes "check_common_patterns_store h description = (r, h')"
  shows "h' = h @ map snd common_patterns"
    and "r = Some a \<Longrightarrow> length h \<le> a \<and> a < length h'"
    and "deref h' r = check_common_patterns description"
proof -
  obtain refs where d: "dict_display h common_patterns = (refs, h')"
    and r: "r = check_loop refs (lower description)"
    using assms by (auto simp: check_common_patterns_store_def split: prod.splits)
  note l = dict_display_loop[OF d, of "lower description"]
  from l show "h' = h @ map snd common_patterns" by simp
  from l r show "r = Some a \<Longrightarrow> length h \<le> a \<and> a < length h'" by auto
  from l r show "deref h' r = check_common_patterns description"
    by (auto simp: deref_def check_common_patterns_def split: option.splits)
qed

text \<open>
  C9. A call of the lookup leaves every object that existed before it as it was: the
  store afterwards starts with the store before. The record it returns is a new
  object, one that nothing outside the call refers to, and holds what the lookup
  finds for the description. A second call with the same description, from any
  store at all (the one the first call left, or one in which the caller has since
  assigned to the record returned or to any other object), returns an equal record.
\<close>

theorem check_common_patterns_store_pure:
  "check_common_patterns_store h description = (r, h') \<Longrightarrow>
   take (length h) h' = h
   \<and> (\<forall>a. r = Some a \<longrightarrow> length h \<le> a \<and> a < length h')
   \<and> deref h' r = check_common_patterns description
   \<and> (check_common_patterns_store h2 description = (r2, h2') \<longrightarrow> deref h2' r2 = deref h' r)"
proof -
  assume c: "check_common_patterns_store h description = (r, h')"
  note s = check_common_patterns_store_sound[OF c]
  have "take (length h) h' = h" using s(1) by simp
  moreover have "\<forall>a. r = Some a \<longrightarrow> length h \<le> a \<and> a < length h'" using s(2) by blast
  moreover have "check_common_patterns_store h2 description = (r2, h2') \<longrightarrow>
      deref h2' r2 = deref h' r"
    using s(3) check_common_patterns_store_sound(3)[of h2 description r2 h2'] by simp
  ultimately show ?thesis using s(3) by blast
qed

text \<open>
  A run: a first call on a store of one object; the caller then assigns to the record
  returned, at address 4, and to the object at address 0; a second call returns a new
  record, at address 9, equal to the first as it was returned.
\<close>

theorem check_common_patterns_store_pure_witness:
  "check_common_patterns_store [date_info] ''IP address'' =
     (Some 4, [date_info, email_info, phone_info, url_info, ip_info, date_info])
   \<and> check_common_patterns_store
        ([date_info, email_info, phone_info, url_info, ip_info, date_info]
           [4 := email_info, 0 := url_info])
        ''IP address'' =
     (Some 9, [url_info, email_info, phone_info, url_info, email_info, date_info,
               email_info, phone_info, url_info, ip_info, date_info])
   \<and> deref [url_info, email_info, phone_info, url_info, email_info, date_info,
               email_info, phone_info, url_info, ip_info, date_info] (Some 9) = Some ip_info
   \<and> deref [date_info, email_info, phone_info, url_info, ip_info, date_info] (Some 4)
       = Some ip_info"
proof -
  have a: "check_common_patterns_store [date_info] ''IP address'' =
     (Some 4, [date_info, email_info, phone_info, url_info, ip_info, date_info])"
    by code_simp
  have b: "check_common_patterns_store
        ([date_info, email_info, phone_info, url_info, ip_info, date_info]
           [4 := email_info, 0 := url_info])
        ''IP address'' =
     (Some 9, [url_info, email_info, phone_info, url_info, email_info, date_info,
               email_info, phone_info, url_info, ip_info, date_info])"
    by code_simp
  have c: "check_common_patterns ''IP address'' = Some ip_info" by code_simp
  from check_common_patterns_store_pure[OF a,
      of "[date_info, email_info, phone_info, url_info, ip_info, date_info]
            [4 := email_info, 0 := url_info]"
         "Some 9"
         "[url_info, email_info, phone_info, url_info, email_info, date_info,
           email_info, phone_info, url_info, ip_info, date_info]"] a b c
  show ?thesis by simp
qed

section \<open>The response parser\<close>

text \<open>
  \<open>str.replace\<close> leaves a text alone in which the old text does not occur, so on a
  line that starts with a prefix and does not contain it again, replacing the prefix
  by nothing gives what follows the prefix.
\<close>

lemma replace_absent: "old \<noteq> [] \<Longrightarrow> \<not> str_in old s \<Longrightarrow> replace old new s = s"
  by (induction s) auto

lemma replace_prefix_once:
  assumes "old \<noteq> []" and "prefix old line" and "\<not> str_in old (drop (length old) line)"
  shows "replace old [] line = drop (length old) line"
proof (cases line)
  case Nil
  with assms show ?thesis by simp
next
  case (Cons c cs)
  with assms have "replace old [] line = replace old [] (drop (length old) line)" by simp
  with assms show ?thesis by (simp add: replace_absent)
qed

lemma parse_loop_agrees:
  "list_all (\<lambda>l. prefix_once ''PATTERN:'' l \<and> prefix_once ''EXPLANATION:'' l
      \<and> prefix_once ''EXAMPLES:'' l) ls \<Longrightarrow>
   parse_loop ls acc = parse_loop_remainder ls acc"
proof (induction ls arbitrary: acc)
  case Nil
  then show ?case by (cases acc) simp
next
  case (Cons l ls)
  obtain pat expl exs where acc: "acc = (pat, expl, exs)" by (cases acc)
  from Cons.prems
  have rest: "list_all (\<lambda>l. prefix_once ''PATTERN:'' l \<and> prefix_once ''EXPLANATION:'' l
      \<and> prefix_once ''EXAMPLES:'' l) ls"
    and once: "prefix_once ''PATTERN:'' l" "prefix_once ''EXPLANATION:'' l"
      "prefix_once ''EXAMPLES:'' l"
    by simp_all
  have r: "startswith (strip l) p \<Longrightarrow> prefix_once p l \<Longrightarrow> p \<noteq> [] \<Longrightarrow>
      replace p [] (strip l) = drop (length p) (strip l)" for p
    by (rule replace_prefix_once) (auto simp: prefix_once_def startswith_def)
  show ?case
    unfolding acc
    using once r[of "''PATTERN:''"] r[of "''EXPLANATION:''"] r[of "''EXAMPLES:''"]
    by (simp add: Let_def Cons.IH[OF rest] del: replace.simps)
qed

text \<open>
  Where no line repeats its own prefix, the parser returns what the specification
  describes: the rest of the line after the prefix, the last line of a kind winning.
\<close>

lemma parse_response_agrees:
  "list_all (\<lambda>l. prefix_once ''PATTERN:'' l \<and> prefix_once ''EXPLANATION:'' l
      \<and> prefix_once ''EXAMPLES:'' l) (split nl raw) \<Longrightarrow>
   parse_response raw = parse_remainder raw"
  by (simp add: parse_response_def parse_remainder_def parse_loop_agrees)

lemma parse_response_examples:
  "parse_response ''no recognizable lines'' = ([], [], [])"
  "parse_response (''PATTERN: ^a$'' @ [nl] @ ''EXPLANATION: matches a'' @ [nl] @ ''EXAMPLES: a|aa'')
     = (''^a$'', ''matches a'', [''a'', ''aa''])"
  "parse_response (''PATTERN: ^a$'' @ [nl] @ ''  PATTERN:   b  '' @ [nl] @ ''EXAMPLES: a| |aa ||'')
     = (''b'', [], [''a'', ''aa''])"
  by code_simp+

text \<open>
  C3. The parser is to give each field the rest of its line after the prefix. The
  code removes the prefix with \<open>str.replace\<close>, which deletes every occurrence on the
  line: for the response \<open>PATTERN: ^PATTERN:.*$\<close>, a pattern for lines that start with
  the word, it returns the pattern \<open>^.*$\<close>, where the rest of the line is
  \<open>^PATTERN:.*$\<close>.
\<close>

theorem parse_response_deletes_inner_prefix:
  "parse_response ''PATTERN: ^PATTERN:.*$'' = (''^.*$'', [], [])
   \<and> parse_remainder ''PATTERN: ^PATTERN:.*$'' = (''^PATTERN:.*$'', [], [])"
  by code_simp

section \<open>The pattern tester\<close>




section \<open>The pattern explainer\<close>

lemma components_checklist:
  "components pat = explain_by_checklist pat"
  by (simp add: components_def explain_by_checklist_def checklist_def)

lemma components_distinct: "distinct (components pat)"
  by (simp add: components_def bs_def)

text \<open>
  C4. After its two heading lines, \<open>explain_pattern\<close> prints the ordered checklist
  \<open>^\<close>, \<open>$\<close>, \<open>+\<close>, \<open>*\<close>, \<open>?\<close>, the pair of brackets, backslash-d, backslash-w,
  backslash-s filtered by plain occurrence in the pattern text: one fixed line for
  each entry present, in the order of the checklist, and no line twice. For the email
  pattern of the catalogue the lines are those of \<open>^\<close>, \<open>$\<close>, \<open>+\<close> and the brackets,
  and none of the three backslash classes.
\<close>

theorem explain_pattern_checklist:
  "explain_pattern pat =
     [nl # magnifier @ '' Pattern Breakdown:'', ''   Pattern: '' @ pat]
     @ map (\<lambda>line. ''   - '' @ line) (explain_by_checklist pat)
   \<and> distinct (drop 2 (explain_pattern pat))
   \<and> explain_pattern (pattern email_info) =
       [nl # magnifier @ '' Pattern Breakdown:'', ''   Pattern: '' @ pattern email_info,
        ''   - ^ = Start of string'', ''   - $ = End of string'',
        ''   - + = One or more of preceding element'',
        ''   - [] = Characters class (match any character inside)'']"
proof (intro conjI)
  show "explain_pattern pat =
     [nl # magnifier @ '' Pattern Breakdown:'', ''   Pattern: '' @ pat]
     @ map (\<lambda>line. ''   - '' @ line) (explain_by_checklist pat)"
    by (simp add: explain_pattern_def components_checklist)
  have "distinct (map (\<lambda>line. ''   - '' @ line) (components pat))"
    using components_distinct by (simp add: distinct_map inj_on_def)
  then show "distinct (drop 2 (explain_pattern pat))"
    by (simp add: explain_pattern_def)
  have "components (pattern email_info) =
      [''^ = Start of string'', ''$ = End of string'',
       ''+ = One or more of preceding element'',
       ''[] = Characters class (match any character inside)'']"
    by code_simp
  then show "explain_pattern (pattern email_info) =
       [nl # magnifier @ '' Pattern Breakdown:'', ''   Pattern: '' @ pattern email_info,
        ''   - ^ = Start of string'', ''   - $ = End of string'',
        ''   - + = One or more of preceding element'',
        ''   - [] = Characters class (match any character inside)'']"
    by (simp add: explain_pattern_def)
qed

theorem explain_pattern_checklist_witness:
  "explain_pattern (''^'' @ [bs] @ ''d+'' @ [bs] @ ''d*^$'') =
     [nl # magnifier @ '' Pattern Breakdown:'',
      ''   Pattern: '' @ ''^'' @ [bs] @ ''d+'' @ [bs] @ ''d*^$'',
      ''   - ^ = Start of string'', ''   - $ = End of string'',
      ''   - + = One or more of preceding element'',
      ''   - * = Zero or more of preceding element'',
      ''   - '' @ bs # ''d = Any digit (0-9)'']"
proof -
  have "explain_by_checklist (''^'' @ [bs] @ ''d+'' @ [bs] @ ''d*^$'') =
       [''^ = Start of string'', ''$ = End of string'',
        ''+ = One or more of preceding element'', ''* = Zero or more of preceding element'',
        bs # ''d = Any digit (0-9)'']"
    by code_simp
  with explain_pattern_checklist[of "''^'' @ [bs] @ ''d+'' @ [bs] @ ''d*^$''"] show ?thesis by simp
qed

section \<open>\<open>generate\<close>\<close>

lemma generate_try_empty_pattern:
  assumes call: "chat_completion h prompt = Inr content"
    and empty: "fst (parse_response (strip content)) = []"
  shows "generate_try h prompt test_string explain =
     [cross_mark @ '' Failed to generate valid regex pattern'']"
proof -
  obtain pat expl exs where p: "parse_response (strip content) = (pat, expl, exs)"
    by (cases "parse_response (strip content)")
  with empty have "pat = []" by simp
  with call p show ?thesis by (simp add: generate_try_def)
qed

text \<open>
  The \<open>try\<close> statement of \<open>generate\<close> does report a failed generation: when the
  service returns a text whose parsed pattern is empty, it prints the failure message
  and no line of the tester or the explainer. So does a whole call of \<open>generate\<close> on an
  object that has the two attributes the method reads.
\<close>

lemma generate_empty_pattern:
  "attr__check_common_patterns s = Some check \<Longrightarrow> attr__buil_prompt s = Some build \<Longrightarrow>
   check description = None \<Longrightarrow> \<not> dry_run \<Longrightarrow>
   chat_completion h (build description) = Inr content \<Longrightarrow>
   fst (parse_response (strip content)) = [] \<Longrightarrow>
   generate h s description test_string dry_run explain =
     ([robot @ '' Generating regex for: '' @ description,
       cross_mark @ '' Failed to generate valid regex pattern''], Returned)"
  using generate_try_empty_pattern[of h "build description" content test_string explain]
  by (simp add: generate_def generate_prompted_def)

text \<open>
  C6. When the response of the service has no pattern, \<open>generate\<close> is to report the
  failure. On the object that \<open>RegexAI()\<close> makes it never does: for a description that
  is not in the catalogue and a service whose answer parses to an empty pattern, the
  call prints nothing, neither the failure message nor any other line, and ends with
  the \<open>AttributeError\<close> of its first statement.
\<close>

theorem generate_never_reports_failure:
  "check_common_patterns ''hex colours'' = None
   \<and> chat_completion sample_host (build_prompt ''hex colours'') = Inr ''Sorry, no idea.''
   \<and> fst (parse_response (strip ''Sorry, no idea.'')) = []
   \<and> RegexAI_init (Some ''sk-test'') =
       ([], Inr \<lparr>api_key = ''sk-test'', attr__check_common_patterns = None,
                 attr__buil_prompt = None\<rparr>)
   \<and> generate sample_host
        \<lparr>api_key = ''sk-test'', attr__check_common_patterns = None, attr__buil_prompt = None\<rparr>
        ''hex colours'' (Some ''#fff'') False True
       = ([], Raised (attribute_error ''_check_common_patterns''))"
proof -
  have "check_common_patterns ''hex colours'' = None" by code_simp
  moreover have "fst (parse_response (strip ''Sorry, no idea.'')) = []" by code_simp
  ultimately show ?thesis
    by (simp add: sample_host_def RegexAI_init_def generate_def)
qed

lemma generate_dry_run_bound:
  "attr__check_common_patterns s = Some check \<Longrightarrow> attr__buil_prompt s = Some build \<Longrightarrow>
   generate h s description test_string True explain =
     ([magnifier @ '' Prompt that would be sent to AI:'' @ [nl],
       replicate 50 (CHR ''=''), build description, replicate 50 (CHR ''='')], Returned)"
  by (simp add: generate_def generate_prompted_def split: option.splits)

text \<open>
  C7. After the key has been loaded no error is to end the process. The object made
  by \<open>RegexAI()\<close> has no attribute \<open>_check_common_patterns\<close> (the method is defined as
  \<open>check_common_patterns\<close>), and \<open>generate\<close> reads it in its first statement, outside
  the \<open>try\<close>: with a key in the environment, every run of \<open>main\<close> prints the banner and
  ends with an uncaught \<open>AttributeError\<close>.
\<close>

theorem main_ends_with_attribute_error:
  "main h (Some ''sk-test'') description test dry_run explain =
     ([rocket @ '' RegexAI - English to Regex Generator'', replicate 40 (CHR ''='')],
      Raised (attribute_error ''_check_common_patterns''))"
  by (simp add: main_def RegexAI_init_def generate_def)

text \<open>
  C8. With the dry-run flag \<open>generate\<close> is to print the prompt. On the object made by
  \<open>RegexAI()\<close> it prints nothing and raises \<open>AttributeError\<close> for
  \<open>_check_common_patterns\<close>; were that name bound to the method the class defines, it
  would raise for \<open>_buil_prompt\<close>, the prompt builder being defined as \<open>_build_prompt\<close>.
\<close>

theorem generate_dry_run_raises:
  "generate h
      \<lparr>api_key = ''sk-test'', attr__check_common_patterns = None, attr__buil_prompt = None\<rparr>
      description test_string True explain
     = ([], Raised (attribute_error ''_check_common_patterns''))
   \<and> generate h
      \<lparr>api_key = ''sk-test'', attr__check_common_patterns = Some check_common_patterns,
        attr__buil_prompt = None\<rparr>
      description test_string True explain
     = ([], Raised (attribute_error ''_buil_prompt''))"
  by (simp add: generate_def generate_prompted_def split: option.splits)

end
